theory Spec2Isabelle
  imports Complex_Main
begin

section \<open>Values of the host language\<close>

text \<open>
  The booking view of \<^verbatim>\<open>frontend/src/App.jsx\<close> is one React component. Its two
  formatting helpers are pure; \<^verbatim>\<open>load\<close> and \<^verbatim>\<open>book\<close> read the component state,
  talk to the network and raise notifications. The model passes the component state
  explicitly and returns the list of effects in the order the code performs them.

  A string is the list of its code units. A number is \<^verbatim>\<open>NaN\<close>, an infinity or a finite
  value; the finite values of a double are rationals.
\<close>

datatype jsnum = NaN | PosInfinity | NegInfinity | Finite rat

text \<open>A JSON document, as \<^verbatim>\<open>JSON.stringify\<close> writes it and \<^verbatim>\<open>res.json()\<close> reads it.\<close>

datatype json =
    JNull
  | JBool bool
  | JNumber rat
  | JString string
  | JArray "json list"
  | JObject "(string \<times> json) list"

text \<open>The exceptions that can be thrown or delivered by a rejected promise.\<close>

datatype error = RangeError | TypeError | SyntaxError | OtherError string

section \<open>Dates\<close>

text \<open>
  A \<^verbatim>\<open>Date\<close> object holds a time value: an integral number of milliseconds since
  the epoch, or \<^verbatim>\<open>NaN\<close> for an invalid date. \<open>None\<close> stands for \<^verbatim>\<open>NaN\<close> where a time
  value is used as a number.
\<close>

datatype jsdate = InvalidDate | Date int

definition valueOf :: "jsdate \<Rightarrow> int option" where
  "valueOf d = (case d of InvalidDate \<Rightarrow> None | Date t \<Rightarrow> Some t)"

text \<open>
  \<^verbatim>\<open>a < b\<close> and \<^verbatim>\<open>a <= b\<close> on two dates compare the time values as numbers; a comparison
  with \<^verbatim>\<open>NaN\<close> is false.
\<close>

definition date_lt :: "jsdate \<Rightarrow> jsdate \<Rightarrow> bool" where
  "date_lt a b = (case (valueOf a, valueOf b) of (Some x, Some y) \<Rightarrow> x < y | _ \<Rightarrow> False)"

definition date_le :: "jsdate \<Rightarrow> jsdate \<Rightarrow> bool" where
  "date_le a b = (case (valueOf a, valueOf b) of (Some x, Some y) \<Rightarrow> x \<le> y | _ \<Rightarrow> False)"

text \<open>\<^verbatim>\<open>new Date(v)\<close> clips the time value: beyond 8.64e15 ms the date is invalid.\<close>

definition new_Date :: "int option \<Rightarrow> jsdate" where
  "new_Date v =
     (case v of None \<Rightarrow> InvalidDate
      | Some t \<Rightarrow> if \<bar>t\<bar> > 8640000000000000 then InvalidDate else Date t)"

subsection \<open>The calendar of the language standard\<close>

definition msPerDay :: int where "msPerDay = 86400000"
definition msPerHour :: int where "msPerHour = 3600000"
definition msPerMinute :: int where "msPerMinute = 60000"
definition msPerSecond :: int where "msPerSecond = 1000"

definition Day :: "int \<Rightarrow> int" where
  "Day t = t div msPerDay"

definition DaysInYear :: "int \<Rightarrow> int" where
  "DaysInYear y =
     (if y mod 4 \<noteq> 0 then 365
      else if y mod 100 \<noteq> 0 then 366
      else if y mod 400 \<noteq> 0 then 365
      else 366)"

definition DayFromYear :: "int \<Rightarrow> int" where
  "DayFromYear y =
     365 * (y - 1970) + (y - 1969) div 4 - (y - 1901) div 100 + (y - 1601) div 400"

definition TimeFromYear :: "int \<Rightarrow> int" where
  "TimeFromYear y = msPerDay * DayFromYear y"

text \<open>
  The standard defines the year of a time value as the largest \<open>y\<close> with
  \<open>TimeFromYear y \<le> t\<close>. To compute it, estimate the year from the mean length of a
  year (146097 days in 400 years) and move it by at most one;
  \<open>YearFromTime_largest\<close> below proves that the result is the year of the standard.
\<close>

definition YearFromTime :: "int \<Rightarrow> int" where
  "YearFromTime t =
     (let d = Day t; y = 1970 + (d * 400) div 146097
      in if d < DayFromYear y then y - 1
         else if DayFromYear (y + 1) \<le> d then y + 1
         else y)"

definition InLeapYear :: "int \<Rightarrow> int" where
  "InLeapYear t = (if DaysInYear (YearFromTime t) = 366 then 1 else 0)"

definition DayWithinYear :: "int \<Rightarrow> int" where
  "DayWithinYear t = Day t - DayFromYear (YearFromTime t)"

definition MonthFromTime :: "int \<Rightarrow> int" where
  "MonthFromTime t =
     (let d = DayWithinYear t; l = InLeapYear t
      in if d < 31 then 0
         else if d < 59 + l then 1
         else if d < 90 + l then 2
         else if d < 120 + l then 3
         else if d < 151 + l then 4
         else if d < 181 + l then 5
         else if d < 212 + l then 6
         else if d < 243 + l then 7
         else if d < 273 + l then 8
         else if d < 304 + l then 9
         else if d < 334 + l then 10
         else 11)"

definition DateFromTime :: "int \<Rightarrow> int" where
  "DateFromTime t =
     (let d = DayWithinYear t; l = InLeapYear t; m = MonthFromTime t
      in if m = 0 then d + 1
         else if m = 1 then d - 30
         else if m = 2 then d - 58 - l
         else if m = 3 then d - 89 - l
         else if m = 4 then d - 119 - l
         else if m = 5 then d - 150 - l
         else if m = 6 then d - 180 - l
         else if m = 7 then d - 211 - l
         else if m = 8 then d - 242 - l
         else if m = 9 then d - 272 - l
         else if m = 10 then d - 303 - l
         else d - 333 - l)"

definition HourFromTime :: "int \<Rightarrow> int" where
  "HourFromTime t = (t div msPerHour) mod 24"

definition MinFromTime :: "int \<Rightarrow> int" where
  "MinFromTime t = (t div msPerMinute) mod 60"

definition SecFromTime :: "int \<Rightarrow> int" where
  "SecFromTime t = (t div msPerSecond) mod 60"

definition msFromTime :: "int \<Rightarrow> int" where
  "msFromTime t = t mod msPerSecond"

subsection \<open>Printing a date\<close>

definition digit :: "nat \<Rightarrow> char" where
  "digit n = ''0123456789'' ! (n mod 10)"

fun decimal :: "nat \<Rightarrow> string" where
  "decimal n = (if n < 10 then [digit n] else decimal (n div 10) @ [digit n])"

declare decimal.simps [simp del]

text \<open>The decimal numeral of \<open>n\<close>, padded with zeros on the left to at least \<open>w\<close> digits.\<close>

definition pad :: "nat \<Rightarrow> int \<Rightarrow> string" where
  "pad w n = (let s = decimal (nat n) in replicate (w - length s) CHR ''0'' @ s)"

text \<open>
  The year is printed with four digits from 0 to 9999, and otherwise with a sign and
  six digits.
\<close>

definition year_string :: "int \<Rightarrow> string" where
  "year_string y =
     (if 0 \<le> y \<and> y \<le> 9999 then pad 4 y
      else (if y < 0 then ''-'' else ''+'') @ pad 6 \<bar>y\<bar>)"

definition date_time_string :: "int \<Rightarrow> int \<Rightarrow> int \<Rightarrow> int \<Rightarrow> int \<Rightarrow> int \<Rightarrow> string" where
  "date_time_string y mo d h mi s =
     year_string y @ ''-'' @ pad 2 mo @ ''-'' @ pad 2 d @ ''T'' @
     pad 2 h @ '':'' @ pad 2 mi @ '':'' @ pad 2 s"

text \<open>
  \<^verbatim>\<open>toISOString\<close> throws a \<^verbatim>\<open>RangeError\<close> on an invalid date and prints the fields of a
  valid one in UTC, the month counted from 1.
\<close>

definition toISOString :: "jsdate \<Rightarrow> error + string" where
  "toISOString d =
     (case d of
        InvalidDate \<Rightarrow> Inl RangeError
      | Date t \<Rightarrow>
          Inr (date_time_string (YearFromTime t) (MonthFromTime t + 1) (DateFromTime t)
                 (HourFromTime t) (MinFromTime t) (SecFromTime t)
               @ ''.'' @ pad 3 (msFromTime t) @ ''Z''))"

section \<open>The environment of a call\<close>

text \<open>
  What the host and the network decide, and the code only observes:
  \<^item> \<open>Number\<close>: the host's conversion of a string to a number (\<^verbatim>\<open>NaN\<close> for a string
    that is not a numeric literal);
  \<^item> \<open>localTime\<close>: the host's local time for a time value, that is the time value
    moved by the offset from UTC that the host's time zone has at that moment, in
    milliseconds; the getters of a date read their fields from it;
  \<^item> \<open>timezoneOffset\<close>: for a time value, the number of minutes that
    \<^verbatim>\<open>getTimezoneOffset\<close> returns on the host. The model covers the hosts on which this
    is a whole number; a fractional value would make the arithmetic of \<^verbatim>\<open>toLocalISO\<close>
    floating-point arithmetic. Nothing ties it to \<open>localTime\<close> here: where a
    property needs the two to agree, it says so;
  \<^item> \<open>now\<close>: the time value of \<^verbatim>\<open>new Date()\<close>;
  \<^item> \<open>POST_reply\<close>, \<open>GET_reply\<close>: what \<^verbatim>\<open>fetch\<close> settles with, a thrown error or a
    response.
  Reading the body of a response is a second step that can itself fail.
\<close>

record response =
  status :: nat
  text' :: "error + string"
  json' :: "error + json"

definition ok :: "response \<Rightarrow> bool" where
  "ok res = (200 \<le> status res \<and> status res \<le> 299)"

record env =
  Number :: "string \<Rightarrow> jsnum"
  localTime :: "int \<Rightarrow> int"
  timezoneOffset :: "int \<Rightarrow> int"
  now :: int
  POST_reply :: "error + response"
  GET_reply :: "error + response"

definition getTimezoneOffset :: "env \<Rightarrow> jsdate \<Rightarrow> int option" where
  "getTimezoneOffset E d = map_option (timezoneOffset E) (valueOf d)"

text \<open>
  The getters of a valid date read the calendar fields of the host's local time. They
  are what the user sees selected in the date picker: the wall clock.
\<close>

definition getFullYear :: "env \<Rightarrow> int \<Rightarrow> int" where
  "getFullYear E t = YearFromTime (localTime E t)"

definition getMonth :: "env \<Rightarrow> int \<Rightarrow> int" where
  "getMonth E t = MonthFromTime (localTime E t)"

definition getDate :: "env \<Rightarrow> int \<Rightarrow> int" where
  "getDate E t = DateFromTime (localTime E t)"

definition getHours :: "env \<Rightarrow> int \<Rightarrow> int" where
  "getHours E t = HourFromTime (localTime E t)"

definition getMinutes :: "env \<Rightarrow> int \<Rightarrow> int" where
  "getMinutes E t = MinFromTime (localTime E t)"

definition getSeconds :: "env \<Rightarrow> int \<Rightarrow> int" where
  "getSeconds E t = SecFromTime (localTime E t)"

text \<open>
  The language standard defines the result of \<^verbatim>\<open>getTimezoneOffset\<close> as the time value
  minus the local time, in minutes. On a host whose offset from UTC at \<open>t\<close> is a whole
  number of minutes, that is the following agreement.
\<close>

definition whole_minute_offset :: "env \<Rightarrow> int \<Rightarrow> bool" where
  "whole_minute_offset E t = (t - localTime E t = timezoneOffset E t * msPerMinute)"

text \<open>
  The number that \<^verbatim>\<open>toLocalISO\<close> computes from a valid date and hands to
  \<^verbatim>\<open>new Date\<close>: \<^verbatim>\<open>dt - tzOffset\<close>.
\<close>

definition shifted :: "env \<Rightarrow> int \<Rightarrow> int" where
  "shifted E t = t - timezoneOffset E t * 60000"

section \<open>The formatting helpers\<close>

text \<open>Arithmetic on numbers that may be \<^verbatim>\<open>NaN\<close>.\<close>

definition num_times :: "int option \<Rightarrow> int \<Rightarrow> int option" where
  "num_times a k = map_option (\<lambda>x. x * k) a"

definition num_minus :: "int option \<Rightarrow> int option \<Rightarrow> int option" where
  "num_minus a b = (case (a, b) of (Some x, Some y) \<Rightarrow> Some (x - y) | _ \<Rightarrow> None)"

text \<open>
  \<^verbatim>\<open>
  function toLocalISO(dt) {
    if (!dt) return ''
    const tzOffset = dt.getTimezoneOffset() * 60000
    return new Date(dt - tzOffset).toISOString().slice(0, 19)
  }
  \<close>
  The argument is a date or \<^verbatim>\<open>null\<close>; every date object is truthy, an invalid one too.
\<close>

definition toLocalISO :: "env \<Rightarrow> jsdate option \<Rightarrow> error + string" where
  "toLocalISO E dt =
     (case dt of
        None \<Rightarrow> Inr ''''
      | Some d \<Rightarrow>
          (let tzOffset = num_times (getTimezoneOffset E d) 60000
           in case toISOString (new_Date (num_minus (valueOf d) tzOffset)) of
                Inl e \<Rightarrow> Inl e
              | Inr s \<Rightarrow> Inr (take 19 s)))"

text \<open>
  \<^verbatim>\<open>
  function displayLocal(dtStr) {
    if (!dtStr) return 'Invalid Date'
    return dtStr.replace('T', ' ').slice(0, 16)
  }
  \<close>
  The argument is a field of a parsed appointment: any JSON value, or \<open>None\<close> for
  \<^verbatim>\<open>undefined\<close> when the field is absent. A truthy value that is not a string has no
  \<^verbatim>\<open>replace\<close> function, and the call throws a \<^verbatim>\<open>TypeError\<close>.
\<close>

definition falsy :: "json option \<Rightarrow> bool" where
  "falsy v =
     (case v of
        None \<Rightarrow> True
      | Some JNull \<Rightarrow> True
      | Some (JBool b) \<Rightarrow> \<not> b
      | Some (JNumber q) \<Rightarrow> q = 0
      | Some (JString s) \<Rightarrow> s = ''''
      | Some (JArray xs) \<Rightarrow> False
      | Some (JObject kvs) \<Rightarrow> False)"

text \<open>\<^verbatim>\<open>s.replace(a, b)\<close> with one-character strings: the first \<open>a\<close> becomes \<open>b\<close>.\<close>

fun replace :: "char \<Rightarrow> char \<Rightarrow> string \<Rightarrow> string" where
  "replace a b [] = []"
| "replace a b (c # cs) = (if c = a then b # cs else c # replace a b cs)"

definition displayLocal :: "json option \<Rightarrow> error + string" where
  "displayLocal dtStr =
     (if falsy dtStr then Inr ''Invalid Date''
      else case dtStr of
             Some (JString s) \<Rightarrow> Inr (take 16 (replace CHR ''T'' CHR '' '' s))
           | _ \<Rightarrow> Inl TypeError)"

section \<open>The component\<close>

text \<open>
  The state of the component: the appointment list (whatever document the last
  successful \<^verbatim>\<open>load\<close> parsed, initially the empty array) and the five fields of the
  draft. \<open>None\<close> is \<^verbatim>\<open>null\<close>.
\<close>

record state =
  appointments :: json
  customer :: string
  vehicle :: string
  mechanic :: string
  start :: "jsdate option"
  end' :: "jsdate option"

definition initial :: state where
  "initial = \<lparr>appointments = JArray [], customer = '''', vehicle = '''', mechanic = '''',
              start = None, end' = None\<rparr>"

record request =
  url :: string
  http_method :: string
  headers :: "(string \<times> string) list"
  body :: "json option"

datatype effect =
    toast_error string
  | toast_success string
  | console_error error
  | fetch request

text \<open>
  A call ends with a new state and the effects it performed, in order; \<open>thrown\<close> is the
  exception that escaped the call, if one did.
\<close>

record outcome =
  after :: state
  effects :: "effect list"
  thrown :: "error option"

definition API :: string where
  "API = ''http://localhost:8080/api/appointments''"

definition GET :: request where
  "GET = \<lparr>url = API, http_method = ''GET'', headers = [], body = None\<rparr>"

text \<open>
  \<^verbatim>\<open>
  async function load() {
    try {
      const res = await fetch(API)
      const data = await res.json()
      setAppointments(data)
    } catch (e) {
      console.error(e)
    }
  }
  \<close>
\<close>

definition load :: "env \<Rightarrow> state \<Rightarrow> outcome" where
  "load E s =
     (case GET_reply E of
        Inl e \<Rightarrow> \<lparr>after = s, effects = [fetch GET, console_error e], thrown = None\<rparr>
      | Inr res \<Rightarrow>
          (case json' res of
             Inl e \<Rightarrow> \<lparr>after = s, effects = [fetch GET, console_error e], thrown = None\<rparr>
           | Inr data \<Rightarrow>
               \<lparr>after = s\<lparr>appointments := data\<rparr>, effects = [fetch GET], thrown = None\<rparr>))"

text \<open>The request body of \<^verbatim>\<open>book\<close>, before and after serialisation.\<close>

record payload =
  customerName :: string
  vehicleReg :: string
  mechanicId :: jsnum
  startTime :: string
  endTime :: string

text \<open>\<^verbatim>\<open>JSON.stringify\<close> writes a number that is not finite as \<^verbatim>\<open>null\<close>.\<close>

definition JSON_number :: "jsnum \<Rightarrow> json" where
  "JSON_number n = (case n of Finite q \<Rightarrow> JNumber q | _ \<Rightarrow> JNull)"

definition JSON_stringify :: "payload \<Rightarrow> json" where
  "JSON_stringify p =
     JObject [(''customerName'', JString (customerName p)),
              (''vehicleReg'', JString (vehicleReg p)),
              (''mechanicId'', JSON_number (mechanicId p)),
              (''startTime'', JString (startTime p)),
              (''endTime'', JString (endTime p))]"

definition POST :: "payload \<Rightarrow> request" where
  "POST p = \<lparr>url = API, http_method = ''POST'',
             headers = [(''Content-Type'', ''application/json'')],
             body = Some (JSON_stringify p)\<rparr>"

text \<open>
  The five setter calls of the success branch (and of the Reset button):
  \<^verbatim>\<open>setCustomer('')\<close>, \<^verbatim>\<open>setVehicle('')\<close>, \<^verbatim>\<open>setMechanic('')\<close>, \<^verbatim>\<open>setStart(null)\<close>,
  \<^verbatim>\<open>setEnd(null)\<close>.
\<close>

definition clear_draft :: "state \<Rightarrow> state" where
  "clear_draft s = s\<lparr>customer := '''', vehicle := '''', mechanic := '''',
                      start := None, end' := None\<rparr>"

definition reject :: "state \<Rightarrow> string \<Rightarrow> outcome" where
  "reject s msg = \<lparr>after = s, effects = [toast_error msg], thrown = None\<rparr>"

text \<open>
  The \<^verbatim>\<open>try\<close> block of \<^verbatim>\<open>book\<close>: the request, the reading of the body, and the two
  branches on \<^verbatim>\<open>res.ok\<close>; both awaits are caught by the same handler. \<^verbatim>\<open>load()\<close> is
  called without \<^verbatim>\<open>await\<close>; it catches its own errors, so its effects simply follow.
\<close>

definition submit :: "env \<Rightarrow> state \<Rightarrow> payload \<Rightarrow> outcome" where
  "submit E s p =
     (let caught = (\<lambda>e. \<lparr>after = s,
                          effects = [fetch (POST p), console_error e,
                                     toast_error ''Error booking appointment''],
                          thrown = None\<rparr>)
      in case POST_reply E of
           Inl e \<Rightarrow> caught e
         | Inr res \<Rightarrow>
             (case text' res of
                Inl e \<Rightarrow> caught e
              | Inr txt \<Rightarrow>
                  if ok res then
                    (let r = load E (clear_draft s)
                     in r\<lparr>effects := [fetch (POST p), toast_success ''Appointment booked'']
                                       @ effects r\<rparr>)
                  else
                    \<lparr>after = s,
                     effects = [fetch (POST p),
                                toast_error (if txt = '''' then ''Error booking appointment''
                                             else txt)],
                     thrown = None\<rparr>))"

text \<open>
  \<^verbatim>\<open>book\<close>: three validations, the first failure wins; then the payload is built,
  outside the \<^verbatim>\<open>try\<close> block, so an exception of \<^verbatim>\<open>toLocalISO\<close> escapes the call
  before any request is made.
\<close>

definition book :: "env \<Rightarrow> state \<Rightarrow> outcome" where
  "book E s =
     (case (start s, end' s) of
        (Some st, Some en) \<Rightarrow>
          if customer s = '''' \<or> vehicle s = '''' \<or> mechanic s = '''' then
            reject s ''Please fill all fields''
          else if date_lt st (Date (now E)) then
            reject s ''Cannot schedule in the past''
          else if date_le en st then
            reject s ''End time must be after start time''
          else
            (case toLocalISO E (Some st) of
               Inl e \<Rightarrow> \<lparr>after = s, effects = [], thrown = Some e\<rparr>
             | Inr a \<Rightarrow>
                 (case toLocalISO E (Some en) of
                    Inl e \<Rightarrow> \<lparr>after = s, effects = [], thrown = Some e\<rparr>
                  | Inr b \<Rightarrow>
                      submit E s \<lparr>customerName = customer s, vehicleReg = vehicle s,
                                   mechanicId = Number E (mechanic s),
                                   startTime = a, endTime = b\<rparr>))
      | _ \<Rightarrow> reject s ''Please fill all fields'')"

text \<open>The requests among the effects of a call.\<close>

fun requests :: "effect list \<Rightarrow> request list" where
  "requests [] = []"
| "requests (fetch r # es) = r # requests es"
| "requests (e # es) = requests es"

text \<open>The notifications shown to the user among the effects of a call.\<close>

fun toasts :: "effect list \<Rightarrow> effect list" where
  "toasts [] = []"
| "toasts (toast_error m # es) = toast_error m # toasts es"
| "toasts (toast_success m # es) = toast_success m # toasts es"
| "toasts (e # es) = toasts es"

section \<open>The naive local form of the specification\<close>

text \<open>
  Following the specification's words: a naive local timestamp has the form
  \<^verbatim>\<open>YYYY-MM-DDTHH:MM:SS\<close>, every field written with exactly its number of decimal
  digits and no time zone marker.
\<close>

definition dd :: "int \<Rightarrow> string" where
  "dd n = [digit (nat n div 10), digit (nat n)]"

definition dddd :: "int \<Rightarrow> string" where
  "dddd n = [digit (nat n div 1000), digit (nat n div 100), digit (nat n div 10),
             digit (nat n)]"

definition naive_local_string :: "int \<Rightarrow> int \<Rightarrow> int \<Rightarrow> int \<Rightarrow> int \<Rightarrow> int \<Rightarrow> string" where
  "naive_local_string y mo d h mi s =
     dddd y @ ''-'' @ dd mo @ ''-'' @ dd d @ ''T'' @ dd h @ '':'' @ dd mi @ '':'' @ dd s"

text \<open>The wall-clock reading of a valid date on the host, in that form.\<close>

definition wall_clock :: "env \<Rightarrow> int \<Rightarrow> string" where
  "wall_clock E t =
     naive_local_string (getFullYear E t) (getMonth E t + 1) (getDate E t)
       (getHours E t) (getMinutes E t) (getSeconds E t)"

definition is_digit :: "char \<Rightarrow> bool" where
  "is_digit c = (c \<in> set ''0123456789'')"

text \<open>In the pattern, \<open>9\<close> stands for any digit and every other character for itself.\<close>

definition naive_local_form :: "string \<Rightarrow> bool" where
  "naive_local_form s =
     list_all2 (\<lambda>p c. if p = CHR ''9'' then is_digit c else c = p)
       ''9999-99-99T99:99:99'' s"

definition is_POST :: "request \<Rightarrow> bool" where
  "is_POST r = (http_method r = ''POST'')"

section \<open>A concrete host and draft\<close>

text \<open>
  The examples below run on a host five and a half hours ahead of UTC, at the start
  of 2024 (UTC). They use two mechanic strings only, \<^verbatim>\<open>"7"\<close> and \<^verbatim>\<open>"abc"\<close>, which the
  language converts to 7 and to \<^verbatim>\<open>NaN\<close>; the \<open>Number\<close> of the example host is fixed
  on them accordingly. The draft books mechanic 7 from 14:00 to 15:00 local time on
  2024-01-01.
\<close>

definition example_env :: "error + response \<Rightarrow> error + response \<Rightarrow> env" where
  "example_env post get =
     \<lparr>Number = (\<lambda>s. if s = ''7'' then Finite 7 else NaN),
      localTime = (\<lambda>t. t + 19800000),
      timezoneOffset = (\<lambda>t. - 330),
      now = 1704067200000,
      POST_reply = post,
      GET_reply = get\<rparr>"

definition example_draft :: state where
  "example_draft =
     \<lparr>appointments = JArray [], customer = ''Ann'', vehicle = ''KA01AB1234'',
      mechanic = ''7'', start = Some (Date 1704097800000),
      end' = Some (Date 1704101400000)\<rparr>"

definition offline :: "error + response" where
  "offline = Inl TypeError"

text \<open>
  Replies of the server: the booking is created; the body of a 200 response cannot be
  read; the mechanic is taken; the list is empty; the list endpoint answers 500 with
  the JSON body \<^verbatim>\<open>{}\<close>.
\<close>

definition created :: "error + response" where
  "created = Inr \<lparr>status = 201, text' = Inr ''Created'', json' = Inl SyntaxError\<rparr>"

definition broken_body :: "error + response" where
  "broken_body = Inr \<lparr>status = 200, text' = Inl TypeError, json' = Inl TypeError\<rparr>"

definition double_booked :: "error + response" where
  "double_booked =
     Inr \<lparr>status = 409, text' = Inr ''Mechanic double-booked'', json' = Inl SyntaxError\<rparr>"

definition empty_list :: "error + response" where
  "empty_list = Inr \<lparr>status = 200, text' = Inr ''[]'', json' = Inr (JArray [])\<rparr>"

definition server_error :: "error + response" where
  "server_error = Inr \<lparr>status = 500, text' = Inr ''{}'', json' = Inr (JObject [])\<rparr>"

text \<open>The same booking in the year 10000: 14:00 to 15:00 local time on 10000-01-01.\<close>

definition far_draft :: state where
  "far_draft =
     example_draft\<lparr>start := Some (Date 253402331400000),
                    end' := Some (Date 253402335000000)\<rparr>"

text \<open>
  A host in the year 1800 whose local mean time is 5 h 53 min 28 s ahead of UTC and
  whose \<^verbatim>\<open>getTimezoneOffset\<close> answers the whole number \<open>- 353\<close>, and the same booking
  there from 06:00 to 07:00 local time on 1800-01-01.
\<close>

definition old_env :: "error + response \<Rightarrow> error + response \<Rightarrow> env" where
  "old_env post get =
     \<lparr>Number = (\<lambda>s. if s = ''7'' then Finite 7 else NaN),
      localTime = (\<lambda>t. t + 21208000),
      timezoneOffset = (\<lambda>t. - 353),
      now = - 5364662068000,
      POST_reply = post,
      GET_reply = get\<rparr>"

definition old_draft :: state where
  "old_draft =
     example_draft\<lparr>start := Some (Date (- 5364662008000)),
                    end' := Some (Date (- 5364658408000))\<rparr>"

section \<open>The calendar computes the year of the standard\<close>

lemma div_bounds:
  fixes a n :: int
  assumes "0 < n"
  shows "n * (a div n) \<le> a" and "a < n * (a div n) + n"
proof -
  have "a = n * (a div n) + a mod n" by simp
  moreover have "0 \<le> a mod n" "a mod n < n" using assms by simp_all
  ultimately show "n * (a div n) \<le> a" and "a < n * (a div n) + n" by linarith+
qed

lemma DayFromYear_shift:
  "DayFromYear (1970 + k + j) =
     365 * (k + j) + (k + j + 1) div 4 - (k + j + 69) div 100 + (k + j + 369) div 400"
  by (simp add: DayFromYear_def ac_simps)

lemma DayFromYear_lower:
  assumes "146097 * k \<le> 400 * d"
  shows "DayFromYear (1970 + k + (-1)) \<le> d"
proof -
  define q1 where "q1 = (k + (-1) + 1) div 4"
  define q2 where "q2 = (k + (-1) + 69) div 100"
  define q3 where "q3 = (k + (-1) + 369) div 400"
  have "4 * q1 \<le> k"
    and "k + 68 < 100 * q2 + 100"
    and "400 * q3 \<le> k + 368"
    unfolding q1_def q2_def q3_def
    using div_bounds [of 4 "k + (-1) + 1"] div_bounds [of 100 "k + (-1) + 69"]
      div_bounds [of 400 "k + (-1) + 369"]
    by simp_all
  moreover have "DayFromYear (1970 + k + (-1)) = 365 * (k + (-1)) + q1 - q2 + q3"
    unfolding DayFromYear_shift q1_def q2_def q3_def ..
  ultimately show ?thesis using assms by simp
qed

lemma DayFromYear_upper:
  assumes "400 * d < 146097 * k + 146097"
  shows "d < DayFromYear (1970 + k + 2)"
proof -
  define q1 where "q1 = (k + 2 + 1) div 4"
  define q2 where "q2 = (k + 2 + 69) div 100"
  define q3 where "q3 = (k + 2 + 369) div 400"
  have "k + 3 < 4 * q1 + 4"
    and "100 * q2 \<le> k + 71"
    and "k + 371 < 400 * q3 + 400"
    unfolding q1_def q2_def q3_def
    using div_bounds [of 4 "k + 2 + 1"] div_bounds [of 100 "k + 2 + 69"]
      div_bounds [of 400 "k + 2 + 369"]
    by simp_all
  moreover have "DayFromYear (1970 + k + 2) = 365 * (k + 2) + q1 - q2 + q3"
    unfolding DayFromYear_shift q1_def q2_def q3_def ..
  ultimately show ?thesis using assms by simp
qed


lemma YearFromTime_bracket:
  "DayFromYear (YearFromTime t) \<le> Day t \<and> Day t < DayFromYear (YearFromTime t + 1)"
proof -
  define d where "d = Day t"
  define k where "k = (d * 400) div 146097"
  have k: "146097 * k \<le> 400 * d" "400 * d < 146097 * k + 146097"
    using div_bounds [of 146097 "d * 400"] by (simp_all add: k_def mult.commute)
  have lo: "DayFromYear (1970 + k - 1) \<le> d"
    using DayFromYear_lower [OF k(1)] by simp
  have hi: "d < DayFromYear (1970 + k + 2)" using k(2) by (rule DayFromYear_upper)
  have y: "YearFromTime t =
      (if d < DayFromYear (1970 + k) then 1970 + k - 1
       else if DayFromYear (1970 + k + 1) \<le> d then 1970 + k + 1 else 1970 + k)"
    by (simp add: YearFromTime_def Let_def d_def k_def)
  have "1970 + k - 1 + 1 = 1970 + k" "1970 + k + 1 + 1 = 1970 + k + 2" by simp_all
  then show ?thesis
    unfolding d_def [symmetric] y using lo hi by (simp add: not_less not_le)
qed

lemma div_succ:
  fixes a n :: int
  assumes "0 < n"
  shows "(a + 1) div n = a div n + (if (a + 1) mod n = 0 then 1 else 0)"
proof -
  define q where "q = a div n"
  define r where "r = a mod n"
  have a: "a = n * q + r" by (simp add: q_def r_def)
  have r: "0 \<le> r" "r < n" using assms by (simp_all add: r_def)
  show ?thesis
  proof (cases "r + 1 = n")
    case True
    then have "a + 1 = n * (q + 1) + 0" using a by (simp add: algebra_simps)
    then have "(a + 1) div n = q + 1" "(a + 1) mod n = 0"
      using assms by (simp_all only: int_div_pos_eq int_mod_pos_eq order_refl)
    then show ?thesis by (simp add: q_def)
  next
    case False
    then have "a + 1 = n * q + (r + 1)" "0 \<le> r + 1" "r + 1 < n" using a r by simp_all
    then have "(a + 1) div n = q" "(a + 1) mod n = r + 1"
      by (simp_all only: int_div_pos_eq int_mod_pos_eq)
    then show ?thesis using r by (simp add: q_def)
  qed
qed

lemma DayFromYear_step: "DayFromYear (y + 1) = DayFromYear y + DaysInYear y"
proof -
  have "(y - 1969 + 1) mod 4 = (y + 4 * (- 492)) mod 4"
    "(y - 1901 + 1) mod 100 = (y + 100 * (- 19)) mod 100"
    "(y - 1601 + 1) mod 400 = (y + 400 * (- 4)) mod 400"
    by simp_all
  then have e: "(y - 1969 + 1) mod 4 = y mod 4" "(y - 1901 + 1) mod 100 = y mod 100"
    "(y - 1601 + 1) mod 400 = y mod 400"
    by (simp_all only: mod_mult_self2)
  have s: "y + 1 - 1969 = y - 1969 + 1" "y + 1 - 1901 = y - 1901 + 1"
    "y + 1 - 1601 = y - 1601 + 1" "y + 1 - 1970 = y - 1970 + 1"
    by simp_all
  have d4: "(y + 1 - 1969) div 4 = (y - 1969) div 4 + (if y mod 4 = 0 then 1 else 0)"
    unfolding s using div_succ [of 4 "y - 1969"] e(1) by simp
  have d100: "(y + 1 - 1901) div 100 = (y - 1901) div 100 + (if y mod 100 = 0 then 1 else 0)"
    unfolding s using div_succ [of 100 "y - 1901"] e(2) by simp
  have d400: "(y + 1 - 1601) div 400 = (y - 1601) div 400 + (if y mod 400 = 0 then 1 else 0)"
    unfolding s using div_succ [of 400 "y - 1601"] e(3) by simp
  have "(400::int) = 100 * 4" "(100::int) = 4 * 25" by simp_all
  then have "(100::int) dvd 400" "(4::int) dvd 100" by (simp_all only: dvd_triv_left)
  then have m: "y mod 400 = 0 \<Longrightarrow> y mod 100 = 0" "y mod 100 = 0 \<Longrightarrow> y mod 4 = 0"
    by (meson dvd_trans mod_eq_0_iff_dvd)+
  show ?thesis
    unfolding DayFromYear_def DaysInYear_def d4 d100 d400 using m by auto
qed

subsection \<open>The fields of a date are in range\<close>

lemma DayWithinYear_bounds:
  "0 \<le> DayWithinYear t" "DayWithinYear t < DaysInYear (YearFromTime t)"
  using YearFromTime_bracket [of t] DayFromYear_step [of "YearFromTime t"]
  by (simp_all add: DayWithinYear_def)

lemma DaysInYear_leap: "DaysInYear (YearFromTime t) = 365 + InLeapYear t"
  by (simp add: InLeapYear_def DaysInYear_def)

lemma InLeapYear_cases: "InLeapYear t = 0 \<or> InLeapYear t = 1"
  by (simp add: InLeapYear_def)

lemma MonthFromTime_bounds: "0 \<le> MonthFromTime t" "MonthFromTime t \<le> 11"
  by (simp_all add: MonthFromTime_def Let_def)

lemma DateFromTime_bounds: "1 \<le> DateFromTime t" "DateFromTime t \<le> 31"
proof -
  define d where "d = DayWithinYear t"
  define l where "l = InLeapYear t"
  have d: "0 \<le> d" "d < 365 + l"
    using DayWithinYear_bounds [of t] by (simp_all add: d_def l_def DaysInYear_leap)
  have l: "l = 0 \<or> l = 1" using InLeapYear_cases [of t] by (simp add: l_def)
  have e: "DateFromTime t =
     (if d < 31 then d + 1
      else if d < 59 + l then d - 30
      else if d < 90 + l then d - 58 - l
      else if d < 120 + l then d - 89 - l
      else if d < 151 + l then d - 119 - l
      else if d < 181 + l then d - 150 - l
      else if d < 212 + l then d - 180 - l
      else if d < 243 + l then d - 211 - l
      else if d < 273 + l then d - 242 - l
      else if d < 304 + l then d - 272 - l
      else if d < 334 + l then d - 303 - l
      else d - 333 - l)"
    by (simp add: DateFromTime_def MonthFromTime_def Let_def d_def l_def)
  show "1 \<le> DateFromTime t" unfolding e using d l by (simp split: if_splits)
  show "DateFromTime t \<le> 31" unfolding e using d l by (auto split: if_splits)
qed

lemma time_field_bounds:
  "0 \<le> HourFromTime t" "HourFromTime t < 24"
  "0 \<le> MinFromTime t" "MinFromTime t < 60"
  "0 \<le> SecFromTime t" "SecFromTime t < 60"
  "0 \<le> msFromTime t" "msFromTime t < 1000"
  by (simp_all add: HourFromTime_def MinFromTime_def SecFromTime_def msFromTime_def
      msPerSecond_def)

lemma digit_0: "digit 0 = CHR ''0''"
  by (simp add: digit_def)

lemma decimal_1: "n < 10 \<Longrightarrow> decimal n = [digit n]"
  by (simp add: decimal.simps)

lemma decimal_2: "10 \<le> n \<Longrightarrow> n < 100 \<Longrightarrow> decimal n = [digit (n div 10), digit n]"
  by (subst decimal.simps) (simp add: decimal_1)

lemma decimal_3:
  "100 \<le> n \<Longrightarrow> n < 1000 \<Longrightarrow> decimal n = [digit (n div 100), digit (n div 10), digit n]"
  by (subst decimal.simps) (simp add: decimal_2 div_mult2_eq [symmetric])

lemma decimal_4:
  "1000 \<le> n \<Longrightarrow> n < 10000 \<Longrightarrow>
   decimal n = [digit (n div 1000), digit (n div 100), digit (n div 10), digit n]"
  by (subst decimal.simps) (simp add: decimal_3 div_mult2_eq [symmetric])

lemma pad_2:
  assumes "0 \<le> n" "n < 100"
  shows "pad 2 n = [digit (nat n div 10), digit (nat n)]"
proof (cases "nat n < 10")
  case True
  then show ?thesis by (simp add: pad_def decimal_1 digit_0)
next
  case False
  then show ?thesis using assms by (simp add: pad_def decimal_2)
qed

lemma replicate_small:
  "replicate (Suc 0) c = [c]" "replicate 2 c = [c, c]" "replicate 3 c = [c, c, c]"
  by (simp_all add: numeral_2_eq_2 numeral_3_eq_3)

lemma pad_4:
  assumes "0 \<le> n" "n \<le> 9999"
  shows "pad 4 n = [digit (nat n div 1000), digit (nat n div 100), digit (nat n div 10),
                    digit (nat n)]"
proof -
  consider "nat n < 10" | "10 \<le> nat n" "nat n < 100" | "100 \<le> nat n" "nat n < 1000"
    | "1000 \<le> nat n" "nat n < 10000"
    using assms by linarith
  then show ?thesis
  proof cases
    case 1
    then show ?thesis by (simp add: pad_def decimal_1 digit_0 replicate_small)
  next
    case 2
    then show ?thesis by (simp add: pad_def decimal_2 digit_0 replicate_small)
  next
    case 3
    then show ?thesis by (simp add: pad_def decimal_3 digit_0 replicate_small)
  next
    case 4
    then show ?thesis by (simp add: pad_def decimal_4)
  qed
qed

lemma digit_is_digit: "is_digit (digit n)"
  unfolding is_digit_def digit_def by (rule nth_mem) simp

lemma naive_local_string_form: "naive_local_form (naive_local_string y mo d h mi s)"
  by (simp add: naive_local_form_def naive_local_string_def dd_def dddd_def digit_is_digit)

lemma DayFromYear_0: "DayFromYear 0 = - 719528"
  by (simp add: DayFromYear_def)

lemma DayFromYear_10000: "DayFromYear 10000 = 2932897"
  by (simp add: DayFromYear_def)

lemma DaysInYear_pos: "0 < DaysInYear y"
  by (simp add: DaysInYear_def)

lemma DayFromYear_mono_nat: "DayFromYear y \<le> DayFromYear (y + int n)"
proof (induction n)
  case 0
  then show ?case by simp
next
  case (Suc n)
  have "DayFromYear (y + int (Suc n)) = DayFromYear (y + int n + 1)"
    by (simp add: ac_simps)
  also have "\<dots> = DayFromYear (y + int n) + DaysInYear (y + int n)"
    by (rule DayFromYear_step)
  finally show ?case using Suc DaysInYear_pos [of "y + int n"] by linarith
qed

lemma DayFromYear_mono: "x \<le> y \<Longrightarrow> DayFromYear x \<le> DayFromYear y"
  using DayFromYear_mono_nat [of x "nat (y - x)"] by simp

lemma year_range_representable:
  assumes "0 \<le> YearFromTime t" "YearFromTime t \<le> 9999"
  shows "\<bar>t\<bar> \<le> 8640000000000000"
proof -
  have "DayFromYear 0 \<le> DayFromYear (YearFromTime t)"
    using assms(1) by (rule DayFromYear_mono)
  moreover have "DayFromYear (YearFromTime t + 1) \<le> DayFromYear 10000"
    using assms(2) by (intro DayFromYear_mono) simp
  ultimately have d: "- 719528 \<le> Day t" "Day t < 2932897"
    using YearFromTime_bracket [of t] by (simp_all add: DayFromYear_0 DayFromYear_10000)
  have "86400000 * (t div 86400000) \<le> t" "t < 86400000 * (t div 86400000) + 86400000"
    using div_bounds [of 86400000 t] by simp_all
  then show ?thesis using d by (simp add: Day_def msPerDay_def)
qed

text \<open>The computed year is the year of the standard: the largest one that starts by \<open>t\<close>.\<close>

lemma YearFromTime_largest: "TimeFromYear y \<le> t \<longleftrightarrow> y \<le> YearFromTime t"
proof
  assume "TimeFromYear y \<le> t"
  then have "86400000 * DayFromYear y \<le> t"
    by (simp add: TimeFromYear_def msPerDay_def)
  moreover have "t < 86400000 * (t div 86400000) + 86400000"
    using div_bounds [of 86400000 t] by simp
  ultimately have "DayFromYear y \<le> Day t"
    by (simp add: Day_def msPerDay_def)
  then have "DayFromYear y < DayFromYear (YearFromTime t + 1)"
    using YearFromTime_bracket [of t] by simp
  then have "\<not> YearFromTime t + 1 \<le> y"
    using DayFromYear_mono [of "YearFromTime t + 1" y] by linarith
  then show "y \<le> YearFromTime t" by simp
next
  assume "y \<le> YearFromTime t"
  then have "DayFromYear y \<le> DayFromYear (YearFromTime t)"
    by (rule DayFromYear_mono)
  then have "DayFromYear y \<le> Day t"
    using YearFromTime_bracket [of t] by simp
  moreover have "86400000 * (t div 86400000) \<le> t"
    using div_bounds [of 86400000 t] by simp
  ultimately show "TimeFromYear y \<le> t"
    by (simp add: TimeFromYear_def Day_def msPerDay_def)
qed

subsection \<open>Serialising a date\<close>

text \<open>The equations that evaluate the calendar and the printer on a concrete date.\<close>

lemmas calendar_defs =
  YearFromTime_def Day_def DayFromYear_def DaysInYear_def InLeapYear_def DayWithinYear_def
  MonthFromTime_def DateFromTime_def HourFromTime_def MinFromTime_def SecFromTime_def
  msFromTime_def msPerDay_def msPerHour_def msPerMinute_def msPerSecond_def Let_def

lemmas print_defs =
  pad_def decimal.simps digit_def year_string_def date_time_string_def toISOString_def

lemma toLocalISO_Date:
  "toLocalISO E (Some (Date t)) =
     (if \<bar>shifted E t\<bar> > 8640000000000000 then Inl RangeError
      else case toISOString (Date (shifted E t)) of Inl e \<Rightarrow> Inl e
           | Inr s \<Rightarrow> Inr (take 19 s))"
  by (simp add: toLocalISO_def getTimezoneOffset_def valueOf_def num_times_def
      num_minus_def new_Date_def shifted_def toISOString_def)

lemma toISOString_four_digit_year:
  assumes "0 \<le> YearFromTime u" "YearFromTime u \<le> 9999"
  shows "\<exists>r. toISOString (Date u) =
           Inr (naive_local_string (YearFromTime u) (MonthFromTime u + 1) (DateFromTime u)
                  (HourFromTime u) (MinFromTime u) (SecFromTime u) @ r)"
proof -
  have "pad 2 (MonthFromTime u + 1) = dd (MonthFromTime u + 1)"
    using MonthFromTime_bounds [of u] by (simp add: pad_2 dd_def)
  moreover have "pad 2 (DateFromTime u) = dd (DateFromTime u)"
    using DateFromTime_bounds [of u] by (simp add: pad_2 dd_def)
  moreover have "pad 2 (HourFromTime u) = dd (HourFromTime u)"
    "pad 2 (MinFromTime u) = dd (MinFromTime u)"
    "pad 2 (SecFromTime u) = dd (SecFromTime u)"
    using time_field_bounds [of u] by (simp_all add: pad_2 dd_def)
  moreover have "year_string (YearFromTime u) = dddd (YearFromTime u)"
    using assms by (simp add: year_string_def pad_4 dddd_def)
  ultimately show ?thesis
    by (simp add: toISOString_def date_time_string_def naive_local_string_def)
qed

lemma length_naive_local_string: "length (naive_local_string y mo d h mi s) = 19"
  by (simp add: naive_local_string_def dd_def dddd_def)

lemma whole_minute_shifted: "whole_minute_offset E t \<Longrightarrow> shifted E t = localTime E t"
  by (simp add: whole_minute_offset_def shifted_def msPerMinute_def)

lemma toLocalISO_wall_clock:
  assumes "0 \<le> getFullYear E t" "getFullYear E t \<le> 9999"
    and "whole_minute_offset E t"
  shows "toLocalISO E (Some (Date t)) = Inr (wall_clock E t)"
proof -
  define u where "u = localTime E t"
  have s: "shifted E t = u"
    using assms(3) by (simp add: whole_minute_shifted u_def)
  have y: "0 \<le> YearFromTime u" "YearFromTime u \<le> 9999"
    using assms(1,2) by (simp_all add: getFullYear_def u_def)
  then have "\<not> \<bar>u\<bar> > 8640000000000000"
    using year_range_representable [of u] by simp
  moreover obtain r where "toISOString (Date u) =
           Inr (naive_local_string (YearFromTime u) (MonthFromTime u + 1) (DateFromTime u)
                  (HourFromTime u) (MinFromTime u) (SecFromTime u) @ r)"
    using toISOString_four_digit_year [OF y] by blast
  ultimately show ?thesis
    unfolding toLocalISO_Date s
    by (simp add: length_naive_local_string wall_clock_def getFullYear_def getMonth_def
        getDate_def getHours_def getMinutes_def getSeconds_def u_def)
qed

section \<open>Reaching the request\<close>

lemma book_submits:
  assumes "customer s \<noteq> ''''" "vehicle s \<noteq> ''''" "mechanic s \<noteq> ''''"
    and "start s = Some (Date a)" "end' s = Some (Date b)"
    and "now E \<le> a" "a < b"
    and "toLocalISO E (Some (Date a)) = Inr x" "toLocalISO E (Some (Date b)) = Inr y"
  shows "book E s =
           submit E s \<lparr>customerName = customer s, vehicleReg = vehicle s,
                        mechanicId = Number E (mechanic s), startTime = x, endTime = y\<rparr>"
  using assms by (simp add: book_def date_lt_def date_le_def valueOf_def)

lemma GET_not_POST: "\<not> is_POST GET"
  by (simp add: is_POST_def GET_def)

lemma POST_is_POST: "is_POST (POST p)"
  by (simp add: is_POST_def POST_def)

lemma requests_load: "requests (effects (load E s)) = [GET]"
  by (simp add: load_def split: sum.splits)

lemma requests_submit:
  "requests (effects (submit E s p)) =
     POST p # (case POST_reply E of
                 Inl e \<Rightarrow> []
               | Inr res \<Rightarrow> (case text' res of Inl e \<Rightarrow> []
                             | Inr txt \<Rightarrow> if ok res then [GET] else []))"
  by (simp add: submit_def Let_def requests_load split: sum.splits)

lemma posts_submit: "filter is_POST (requests (effects (submit E s p))) = [POST p]"
  by (simp add: requests_submit GET_not_POST POST_is_POST split: sum.splits)

lemma load_keeps_draft:
  "customer (after (load E s)) = customer s" "vehicle (after (load E s)) = vehicle s"
  "mechanic (after (load E s)) = mechanic s" "start (after (load E s)) = start s"
  "end' (after (load E s)) = end' s"
  by (simp_all add: load_def split: sum.splits)

lemma submit_ok:
  assumes "POST_reply E = Inr res" "ok res" "text' res = Inr txt"
  shows "effects (submit E s p) =
           [fetch (POST p), toast_success ''Appointment booked'']
           @ effects (load E (clear_draft s))"
    and "after (submit E s p) = after (load E (clear_draft s))"
    and "thrown (submit E s p) = thrown (load E (clear_draft s))"
  using assms by (simp_all add: submit_def Let_def)

lemma submit_not_ok:
  assumes "POST_reply E = Inr res" "\<not> ok res"
  shows "effects (submit E s p) =
           (case text' res of
              Inl e \<Rightarrow> [fetch (POST p), console_error e,
                        toast_error ''Error booking appointment'']
            | Inr txt \<Rightarrow> [fetch (POST p),
                          toast_error (if txt = '''' then ''Error booking appointment''
                                       else txt)])"
    and "after (submit E s p) = s"
    and "thrown (submit E s p) = None"
  using assms by (simp_all add: submit_def Let_def split: sum.splits)

lemma example_times:
  "toLocalISO (example_env post get) (Some (Date 1704097800000)) = Inr ''2024-01-01T14:00:00''"
  "toLocalISO (example_env post get) (Some (Date 1704101400000)) = Inr ''2024-01-01T15:00:00''"
  by (simp_all add: toLocalISO_Date shifted_def example_env_def calendar_defs print_defs)

lemma replace_absent: "a \<notin> set cs \<Longrightarrow> replace a b cs = cs"
  by (induction cs) auto

lemma replace_first: "a \<notin> set pre \<Longrightarrow> replace a b (pre @ a # post) = pre @ b # post"
  by (induction pre) auto

section \<open>Validation\<close>

text \<open>
  C2. If any of the five fields of the draft is empty or null, \<^verbatim>\<open>book\<close> makes no
  request: its only effect is the error notification "Please fill all fields", and the
  state is unchanged.
\<close>

theorem book_missing_field:
  assumes "customer s = '''' \<or> vehicle s = '''' \<or> mechanic s = '''' \<or>
           start s = None \<or> end' s = None"
  shows "book E s = \<lparr>after = s, effects = [toast_error ''Please fill all fields''],
                      thrown = None\<rparr>
         \<and> requests (effects (book E s)) = []"
  using assms by (auto simp: book_def reject_def split: option.splits)

theorem book_missing_field_witness:
  "(customer (example_draft\<lparr>end' := None\<rparr>) = '''' \<or>
    vehicle (example_draft\<lparr>end' := None\<rparr>) = '''' \<or>
    mechanic (example_draft\<lparr>end' := None\<rparr>) = '''' \<or>
    start (example_draft\<lparr>end' := None\<rparr>) = None \<or>
    end' (example_draft\<lparr>end' := None\<rparr>) = None)
   \<and> effects (book (example_env offline offline) (example_draft\<lparr>end' := None\<rparr>))
       = [toast_error ''Please fill all fields'']"
  using book_missing_field [of "example_draft\<lparr>end' := None\<rparr>" "example_env offline offline"]
  by simp

text \<open>
  C3. If the five fields are filled and \<open>start\<close> is strictly before the current time,
  \<^verbatim>\<open>book\<close> makes no request and its only effect is the error notification "Cannot
  schedule in the past", whatever \<open>end\<close> is: a date after \<open>start\<close>, before it, or an
  invalid date.
\<close>

theorem book_start_in_past:
  assumes "customer s \<noteq> ''''" "vehicle s \<noteq> ''''" "mechanic s \<noteq> ''''"
    and "start s = Some (Date a)" "end' s = Some en"
    and "a < now E"
  shows "book E s = \<lparr>after = s, effects = [toast_error ''Cannot schedule in the past''],
                      thrown = None\<rparr>
         \<and> requests (effects (book E s)) = []"
  using assms by (simp add: book_def reject_def date_lt_def valueOf_def)

theorem book_start_in_past_witness:
  "customer (example_draft\<lparr>start := Some (Date 1704067140000)\<rparr>) \<noteq> '''' \<and>
   vehicle (example_draft\<lparr>start := Some (Date 1704067140000)\<rparr>) \<noteq> '''' \<and>
   mechanic (example_draft\<lparr>start := Some (Date 1704067140000)\<rparr>) \<noteq> '''' \<and>
   end' (example_draft\<lparr>start := Some (Date 1704067140000)\<rparr>) = Some (Date 1704101400000) \<and>
   1704067140000 < now (example_env offline offline) \<and>
   effects (book (example_env offline offline)
              (example_draft\<lparr>start := Some (Date 1704067140000)\<rparr>))
     = [toast_error ''Cannot schedule in the past'']"
  using book_start_in_past [of "example_draft\<lparr>start := Some (Date 1704067140000)\<rparr>"
      1704067140000 "Date 1704101400000" "example_env offline offline"]
  by (simp add: example_draft_def example_env_def)

text \<open>
  C4. If the five fields are filled, \<open>start\<close> is not before the current time and \<open>end\<close>
  is earlier than or equal to \<open>start\<close>, \<^verbatim>\<open>book\<close> makes no request and its only effect
  is the error notification "End time must be after start time".
\<close>

theorem book_end_not_after_start:
  assumes "customer s \<noteq> ''''" "vehicle s \<noteq> ''''" "mechanic s \<noteq> ''''"
    and "start s = Some (Date a)" "end' s = Some (Date b)"
    and "now E \<le> a" "b \<le> a"
  shows "book E s = \<lparr>after = s, effects = [toast_error ''End time must be after start time''],
                      thrown = None\<rparr>
         \<and> requests (effects (book E s)) = []"
  using assms by (simp add: book_def reject_def date_lt_def date_le_def valueOf_def)

theorem book_end_not_after_start_witness:
  "customer (example_draft\<lparr>end' := Some (Date 1704097800000)\<rparr>) \<noteq> '''' \<and>
   vehicle (example_draft\<lparr>end' := Some (Date 1704097800000)\<rparr>) \<noteq> '''' \<and>
   mechanic (example_draft\<lparr>end' := Some (Date 1704097800000)\<rparr>) \<noteq> '''' \<and>
   start (example_draft\<lparr>end' := Some (Date 1704097800000)\<rparr>) = Some (Date 1704097800000) \<and>
   now (example_env offline offline) \<le> 1704097800000 \<and>
   effects (book (example_env offline offline)
              (example_draft\<lparr>end' := Some (Date 1704097800000)\<rparr>))
     = [toast_error ''End time must be after start time'']"
  using book_end_not_after_start [of "example_draft\<lparr>end' := Some (Date 1704097800000)\<rparr>"
      1704097800000 1704097800000 "example_env offline offline"]
  by (simp add: example_draft_def example_env_def)

section \<open>The request\<close>

text \<open>
  C1, as the code has it. If the draft passes the three validations, the local
  wall-clock years of \<open>start\<close> and \<open>end\<close> lie between 0 and 9999, and the host's
  offset from UTC at \<open>start\<close> and at \<open>end\<close> is the whole number of minutes that
  \<^verbatim>\<open>getTimezoneOffset\<close> returns, \<^verbatim>\<open>book\<close> sends exactly one POST. Its payload carries
  \<open>Number\<close> of the mechanic string, and its two timestamps are the wall-clock readings
  of \<open>start\<close> and \<open>end\<close> on the host, in the form \<^verbatim>\<open>YYYY-MM-DDTHH:MM:SS\<close>. On every such
  host, whatever its offset from UTC, a start that reads 2024-01-01 14:00:00 locally is
  sent as \<^verbatim>\<open>2024-01-01T14:00:00\<close>.
\<close>

theorem book_posts_wall_clock:
  assumes "customer s \<noteq> ''''" "vehicle s \<noteq> ''''" "mechanic s \<noteq> ''''"
    and "start s = Some (Date a)" "end' s = Some (Date b)"
    and "now E \<le> a" "a < b"
    and "0 \<le> getFullYear E a" "getFullYear E a \<le> 9999"
    and "0 \<le> getFullYear E b" "getFullYear E b \<le> 9999"
    and "whole_minute_offset E a" "whole_minute_offset E b"
  shows "filter is_POST (requests (effects (book E s))) =
           [POST \<lparr>customerName = customer s, vehicleReg = vehicle s,
                   mechanicId = Number E (mechanic s),
                   startTime = wall_clock E a, endTime = wall_clock E b\<rparr>]
         \<and> naive_local_form (wall_clock E a) \<and> naive_local_form (wall_clock E b)
         \<and> (getFullYear E a = 2024 \<and> getMonth E a = 0 \<and> getDate E a = 1 \<and>
              getHours E a = 14 \<and> getMinutes E a = 0 \<and> getSeconds E a = 0
              \<longrightarrow> toLocalISO E (start s) = Inr ''2024-01-01T14:00:00'')"
proof -
  have x: "toLocalISO E (Some (Date a)) = Inr (wall_clock E a)"
    using assms(8,9,12) by (rule toLocalISO_wall_clock)
  have y: "toLocalISO E (Some (Date b)) = Inr (wall_clock E b)"
    using assms(10,11,13) by (rule toLocalISO_wall_clock)
  have "book E s =
          submit E s \<lparr>customerName = customer s, vehicleReg = vehicle s,
                       mechanicId = Number E (mechanic s),
                       startTime = wall_clock E a, endTime = wall_clock E b\<rparr>"
    using assms(1-7) x y by (rule book_submits)
  then have posts: "filter is_POST (requests (effects (book E s))) =
           [POST \<lparr>customerName = customer s, vehicleReg = vehicle s,
                   mechanicId = Number E (mechanic s),
                   startTime = wall_clock E a, endTime = wall_clock E b\<rparr>]"
    by (simp only: posts_submit)
  have form: "naive_local_form (wall_clock E a)" "naive_local_form (wall_clock E b)"
    by (simp_all add: wall_clock_def naive_local_string_form)
  have "naive_local_string 2024 (0 + 1) 1 14 0 0 = ''2024-01-01T14:00:00''"
    by (simp add: naive_local_string_def dd_def dddd_def digit_def)
  then have ex: "getFullYear E a = 2024 \<and> getMonth E a = 0 \<and> getDate E a = 1 \<and>
              getHours E a = 14 \<and> getMinutes E a = 0 \<and> getSeconds E a = 0
              \<longrightarrow> toLocalISO E (start s) = Inr ''2024-01-01T14:00:00''"
    unfolding assms(4) x by (simp add: wall_clock_def)
  show ?thesis
    using posts form ex by (intro conjI)
qed

theorem book_posts_wall_clock_witness:
  "filter is_POST (requests (effects (book (example_env offline offline) example_draft))) =
     [POST \<lparr>customerName = ''Ann'', vehicleReg = ''KA01AB1234'', mechanicId = Finite 7,
             startTime = ''2024-01-01T14:00:00'', endTime = ''2024-01-01T15:00:00''\<rparr>]
   \<and> naive_local_form ''2024-01-01T14:00:00''
   \<and> toLocalISO (example_env offline offline) (start example_draft)
       = Inr ''2024-01-01T14:00:00''"
proof -
  let ?E = "example_env offline offline"
  have s: "customer example_draft \<noteq> ''''" "vehicle example_draft \<noteq> ''''"
    "mechanic example_draft \<noteq> ''''"
    "start example_draft = Some (Date 1704097800000)"
    "end' example_draft = Some (Date 1704101400000)"
    by (simp_all add: example_draft_def)
  have t: "now ?E \<le> 1704097800000" "(1704097800000::int) < 1704101400000"
    by (simp_all add: example_env_def)
  have y: "0 \<le> getFullYear ?E 1704097800000" "getFullYear ?E 1704097800000 \<le> 9999"
    "0 \<le> getFullYear ?E 1704101400000" "getFullYear ?E 1704101400000 \<le> 9999"
    by code_simp+
  have o: "whole_minute_offset ?E 1704097800000" "whole_minute_offset ?E 1704101400000"
    by (simp_all add: whole_minute_offset_def example_env_def msPerMinute_def)
  have f: "getFullYear ?E 1704097800000 = 2024 \<and> getMonth ?E 1704097800000 = 0 \<and>
    getDate ?E 1704097800000 = 1 \<and> getHours ?E 1704097800000 = 14 \<and>
    getMinutes ?E 1704097800000 = 0 \<and> getSeconds ?E 1704097800000 = 0"
    by code_simp
  have w: "wall_clock ?E 1704097800000 = ''2024-01-01T14:00:00''"
    "wall_clock ?E 1704101400000 = ''2024-01-01T15:00:00''"
    by code_simp+
  have n: "Number ?E ''7'' = Finite 7"
    by (simp add: example_env_def)
  have c: "customer example_draft = ''Ann''" "vehicle example_draft = ''KA01AB1234''"
    "mechanic example_draft = ''7''"
    by (simp_all add: example_draft_def)
  from book_posts_wall_clock [OF s t y o] f show ?thesis
    unfolding c n w by blast
qed

text \<open>
  A draft that passes the three validations with a start in the year 10000: the year
  is printed with a sign and six digits, and the first 19 characters are not of the form
  \<^verbatim>\<open>YYYY-MM-DDTHH:MM:SS\<close>; the seconds are cut off.
\<close>

lemma year_10000_draft:
  "customer far_draft \<noteq> '''' \<and> vehicle far_draft \<noteq> '''' \<and> mechanic far_draft \<noteq> '''' \<and>
   start far_draft = Some (Date 253402331400000) \<and>
   end' far_draft = Some (Date 253402335000000) \<and>
   now (example_env offline offline) \<le> 253402331400000 \<and>
   (253402331400000::int) < 253402335000000 \<and>
   filter is_POST (requests (effects (book (example_env offline offline) far_draft))) =
     [POST \<lparr>customerName = ''Ann'', vehicleReg = ''KA01AB1234'', mechanicId = Finite 7,
             startTime = ''+010000-01-01T14:00'', endTime = ''+010000-01-01T15:00''\<rparr>] \<and>
   \<not> naive_local_form ''+010000-01-01T14:00''"
proof -
  let ?E = "example_env offline offline"
  have s: "customer far_draft \<noteq> ''''" "vehicle far_draft \<noteq> ''''"
    "mechanic far_draft \<noteq> ''''"
    "start far_draft = Some (Date 253402331400000)"
    "end' far_draft = Some (Date 253402335000000)"
    by (simp_all add: far_draft_def example_draft_def)
  have t: "now ?E \<le> 253402331400000" "(253402331400000::int) < 253402335000000"
    by (simp_all add: example_env_def)
  have x: "toLocalISO ?E (Some (Date 253402331400000)) = Inr ''+010000-01-01T14:00''"
    by (simp add: toLocalISO_Date shifted_def example_env_def calendar_defs print_defs)
  have y: "toLocalISO ?E (Some (Date 253402335000000)) = Inr ''+010000-01-01T15:00''"
    by (simp add: toLocalISO_Date shifted_def example_env_def calendar_defs print_defs)
  have c: "customer far_draft = ''Ann''" "vehicle far_draft = ''KA01AB1234''"
    "Number ?E (mechanic far_draft) = Finite 7"
    by (simp_all add: far_draft_def example_draft_def example_env_def)
  have "filter is_POST (requests (effects (book ?E far_draft))) =
     [POST \<lparr>customerName = ''Ann'', vehicleReg = ''KA01AB1234'', mechanicId = Finite 7,
             startTime = ''+010000-01-01T14:00'', endTime = ''+010000-01-01T15:00''\<rparr>]"
    unfolding book_submits [OF s t x y] posts_submit c ..
  moreover have "\<not> naive_local_form ''+010000-01-01T14:00''"
    by (simp add: naive_local_form_def is_digit_def)
  ultimately show ?thesis
    using s t by (intro conjI)
qed

text \<open>
  A draft on a host where the offset and the local time do not agree: the local time is
  5 h 53 min 28 s ahead of UTC and \<^verbatim>\<open>getTimezoneOffset\<close> answers \<open>- 353\<close>. A start
  that reads 1800-01-01 06:00:00 locally passes the three validations and is sent as
  \<^verbatim>\<open>1800-01-01T05:59:32\<close>.
\<close>

lemma sub_minute_draft:
  "customer old_draft \<noteq> '''' \<and> vehicle old_draft \<noteq> '''' \<and> mechanic old_draft \<noteq> '''' \<and>
   start old_draft = Some (Date (- 5364662008000)) \<and>
   end' old_draft = Some (Date (- 5364658408000)) \<and>
   now (old_env offline offline) \<le> - 5364662008000 \<and>
   (- 5364662008000::int) < - 5364658408000 \<and>
   wall_clock (old_env offline offline) (- 5364662008000) = ''1800-01-01T06:00:00'' \<and>
   filter is_POST (requests (effects (book (old_env offline offline) old_draft))) =
     [POST \<lparr>customerName = ''Ann'', vehicleReg = ''KA01AB1234'', mechanicId = Finite 7,
             startTime = ''1800-01-01T05:59:32'', endTime = ''1800-01-01T06:59:32''\<rparr>]"
proof -
  let ?E = "old_env offline offline"
  have s: "customer old_draft \<noteq> ''''" "vehicle old_draft \<noteq> ''''"
    "mechanic old_draft \<noteq> ''''"
    "start old_draft = Some (Date (- 5364662008000))"
    "end' old_draft = Some (Date (- 5364658408000))"
    by (simp_all add: old_draft_def example_draft_def)
  have t: "now ?E \<le> - 5364662008000" "(- 5364662008000::int) < - 5364658408000"
    by (simp_all add: old_env_def)
  have x: "toLocalISO ?E (Some (Date (- 5364662008000))) = Inr ''1800-01-01T05:59:32''"
    by (simp add: toLocalISO_Date shifted_def old_env_def calendar_defs print_defs)
  have y: "toLocalISO ?E (Some (Date (- 5364658408000))) = Inr ''1800-01-01T06:59:32''"
    by (simp add: toLocalISO_Date shifted_def old_env_def calendar_defs print_defs)
  have c: "customer old_draft = ''Ann''" "vehicle old_draft = ''KA01AB1234''"
    "Number ?E (mechanic old_draft) = Finite 7"
    by (simp_all add: old_draft_def example_draft_def old_env_def)
  have w: "wall_clock ?E (- 5364662008000) = ''1800-01-01T06:00:00''"
    by code_simp
  have "filter is_POST (requests (effects (book ?E old_draft))) =
     [POST \<lparr>customerName = ''Ann'', vehicleReg = ''KA01AB1234'', mechanicId = Finite 7,
             startTime = ''1800-01-01T05:59:32'', endTime = ''1800-01-01T06:59:32''\<rparr>]"
    unfolding book_submits [OF s t x y] posts_submit c ..
  then show ?thesis
    using s t w by (intro conjI)
qed

text \<open>
  C1 as stated fails at both drafts. Each passes the three validations and is sent in
  one POST; the start in the year 10000 is not sent in the form
  \<^verbatim>\<open>YYYY-MM-DDTHH:MM:SS\<close>, and the start that reads 06:00:00 on the wall clock of the
  second host is sent as 05:59:32.
\<close>

theorem book_wall_clock_counterexample:
  "(customer far_draft \<noteq> '''' \<and> vehicle far_draft \<noteq> '''' \<and> mechanic far_draft \<noteq> '''' \<and>
   start far_draft = Some (Date 253402331400000) \<and>
   end' far_draft = Some (Date 253402335000000) \<and>
   now (example_env offline offline) \<le> 253402331400000 \<and>
   (253402331400000::int) < 253402335000000 \<and>
   filter is_POST (requests (effects (book (example_env offline offline) far_draft))) =
     [POST \<lparr>customerName = ''Ann'', vehicleReg = ''KA01AB1234'', mechanicId = Finite 7,
             startTime = ''+010000-01-01T14:00'', endTime = ''+010000-01-01T15:00''\<rparr>] \<and>
   \<not> naive_local_form ''+010000-01-01T14:00'')
   \<and>
   (customer old_draft \<noteq> '''' \<and> vehicle old_draft \<noteq> '''' \<and> mechanic old_draft \<noteq> '''' \<and>
   start old_draft = Some (Date (- 5364662008000)) \<and>
   end' old_draft = Some (Date (- 5364658408000)) \<and>
   now (old_env offline offline) \<le> - 5364662008000 \<and>
   (- 5364662008000::int) < - 5364658408000 \<and>
   wall_clock (old_env offline offline) (- 5364662008000) = ''1800-01-01T06:00:00'' \<and>
   filter is_POST (requests (effects (book (old_env offline offline) old_draft))) =
     [POST \<lparr>customerName = ''Ann'', vehicleReg = ''KA01AB1234'', mechanicId = Finite 7,
             startTime = ''1800-01-01T05:59:32'', endTime = ''1800-01-01T06:59:32''\<rparr>])"
  using year_10000_draft sub_minute_draft by (rule conjI)

section \<open>The reply\<close>

text \<open>
  C5, as the code has it. When the POST of \<^verbatim>\<open>book\<close> receives a response with a status
  from 200 to 299 and the body of the response is read without error, the only
  notification is the success message, the five fields of the draft are reset to two
  nulls and three empty strings, and the list is fetched again: the requests of the
  call are the POST and then the GET of \<^verbatim>\<open>load\<close>, which alone decides the appointment
  list afterwards.
\<close>

theorem book_success:
  assumes "customer s \<noteq> ''''" "vehicle s \<noteq> ''''" "mechanic s \<noteq> ''''"
    and "start s = Some (Date a)" "end' s = Some (Date b)"
    and "now E \<le> a" "a < b"
    and "toLocalISO E (Some (Date a)) = Inr x" "toLocalISO E (Some (Date b)) = Inr y"
    and "POST_reply E = Inr res" "200 \<le> status res" "status res \<le> 299"
    and "text' res = Inr txt"
  shows "toasts (effects (book E s)) = [toast_success ''Appointment booked'']
         \<and> customer (after (book E s)) = '''' \<and> vehicle (after (book E s)) = ''''
         \<and> mechanic (after (book E s)) = '''' \<and> start (after (book E s)) = None
         \<and> end' (after (book E s)) = None
         \<and> requests (effects (book E s)) =
             [POST \<lparr>customerName = customer s, vehicleReg = vehicle s,
                     mechanicId = Number E (mechanic s), startTime = x, endTime = y\<rparr>,
              GET]
         \<and> appointments (after (book E s)) = appointments (after (load E (clear_draft s)))"
proof -
  let ?p = "\<lparr>customerName = customer s, vehicleReg = vehicle s,
             mechanicId = Number E (mechanic s), startTime = x, endTime = y\<rparr>"
  have b: "book E s = submit E s ?p"
    using assms(1-9) by (rule book_submits)
  have k: "ok res" using assms(11,12) by (simp add: ok_def)
  have e: "effects (book E s) =
      [fetch (POST ?p), toast_success ''Appointment booked'']
      @ effects (load E (clear_draft s))"
    unfolding b using assms(10) k assms(13) by (rule submit_ok)
  have a: "after (book E s) = after (load E (clear_draft s))"
    unfolding b using assms(10) k assms(13) by (rule submit_ok)
  have t: "toasts (effects (load E (clear_draft s))) = []"
    by (simp add: load_def split: sum.splits)
  have "toasts (effects (book E s)) = [toast_success ''Appointment booked'']"
    unfolding e using t by simp
  moreover have "requests (effects (book E s)) = [POST ?p, GET]"
    unfolding e by (simp add: requests_load)
  moreover have "customer (after (book E s)) = ''''" "vehicle (after (book E s)) = ''''"
    "mechanic (after (book E s)) = ''''" "start (after (book E s)) = None"
    "end' (after (book E s)) = None"
    unfolding a by (simp_all add: load_keeps_draft clear_draft_def)
  ultimately show ?thesis using a by simp
qed

theorem book_success_witness:
  "toasts (effects (book (example_env created empty_list) example_draft))
     = [toast_success ''Appointment booked'']
   \<and> after (book (example_env created empty_list) example_draft) = initial
   \<and> requests (effects (book (example_env created empty_list) example_draft)) =
       [POST \<lparr>customerName = ''Ann'', vehicleReg = ''KA01AB1234'', mechanicId = Finite 7,
               startTime = ''2024-01-01T14:00:00'', endTime = ''2024-01-01T15:00:00''\<rparr>,
        GET]"
proof -
  let ?E = "example_env created empty_list"
  let ?res = "\<lparr>status = 201, text' = Inr ''Created'', json' = Inl SyntaxError\<rparr>"
  have s: "customer example_draft \<noteq> ''''" "vehicle example_draft \<noteq> ''''"
    "mechanic example_draft \<noteq> ''''"
    "start example_draft = Some (Date 1704097800000)"
    "end' example_draft = Some (Date 1704101400000)"
    by (simp_all add: example_draft_def)
  have t: "now ?E \<le> 1704097800000" "(1704097800000::int) < 1704101400000"
    by (simp_all add: example_env_def)
  have r: "POST_reply ?E = Inr ?res" "200 \<le> status ?res" "status ?res \<le> 299"
    "text' ?res = Inr ''Created''"
    by (simp_all add: example_env_def created_def)
  have l: "load ?E (clear_draft example_draft) =
             \<lparr>after = initial, effects = [fetch GET], thrown = None\<rparr>"
    by (simp add: load_def example_env_def empty_list_def clear_draft_def example_draft_def
        initial_def)
  have c: "customer example_draft = ''Ann''" "vehicle example_draft = ''KA01AB1234''"
    "Number ?E (mechanic example_draft) = Finite 7"
    by (simp_all add: example_draft_def example_env_def)
  have i: "customer initial = ''''" "vehicle initial = ''''" "mechanic initial = ''''"
    "start initial = None" "end' initial = None" "appointments initial = JArray []"
    by (simp_all add: initial_def)
  from book_success [OF s t example_times r] show ?thesis
    unfolding c l by (cases "after (book ?E example_draft)") (simp add: initial_def)
qed

text \<open>
  C5 as stated fails when the response has status 200 and reading its body fails:
  \<^verbatim>\<open>await res.text()\<close> comes before the test of \<^verbatim>\<open>res.ok\<close>, inside the \<^verbatim>\<open>try\<close> block,
  so the handler logs the error and shows the generic failure message; the draft is
  kept and the list is not fetched.
\<close>

theorem book_success_counterexample:
  "POST_reply (example_env broken_body empty_list)
     = Inr \<lparr>status = 200, text' = Inl TypeError, json' = Inl TypeError\<rparr> \<and>
   book (example_env broken_body empty_list) example_draft =
     \<lparr>after = example_draft,
      effects =
        [fetch (POST \<lparr>customerName = ''Ann'', vehicleReg = ''KA01AB1234'',
                       mechanicId = Finite 7, startTime = ''2024-01-01T14:00:00'',
                       endTime = ''2024-01-01T15:00:00''\<rparr>),
         console_error TypeError, toast_error ''Error booking appointment''],
      thrown = None\<rparr>"
proof -
  let ?E = "example_env broken_body empty_list"
  have s: "customer example_draft \<noteq> ''''" "vehicle example_draft \<noteq> ''''"
    "mechanic example_draft \<noteq> ''''"
    "start example_draft = Some (Date 1704097800000)"
    "end' example_draft = Some (Date 1704101400000)"
    by (simp_all add: example_draft_def)
  have t: "now ?E \<le> 1704097800000" "(1704097800000::int) < 1704101400000"
    by (simp_all add: example_env_def)
  have c: "customer example_draft = ''Ann''" "vehicle example_draft = ''KA01AB1234''"
    "Number ?E (mechanic example_draft) = Finite 7"
    by (simp_all add: example_draft_def example_env_def)
  have r: "POST_reply ?E = Inr \<lparr>status = 200, text' = Inl TypeError, json' = Inl TypeError\<rparr>"
    by (simp add: example_env_def broken_body_def)
  show ?thesis
    unfolding book_submits [OF s t example_times] c
    by (simp add: submit_def r)
qed

text \<open>
  C6. When the POST of \<^verbatim>\<open>book\<close> receives a response whose status is not from 200 to
  299, the only notification is an error: the body text of the response when that text
  is not empty (for the body "Mechanic double-booked", exactly that text), and the
  generic message "Error booking appointment" otherwise, also when the body cannot be
  read. The state, and so each of the five fields of the draft, is unchanged, and no
  further request is made.
\<close>

theorem book_rejected_by_server:
  assumes "customer s \<noteq> ''''" "vehicle s \<noteq> ''''" "mechanic s \<noteq> ''''"
    and "start s = Some (Date a)" "end' s = Some (Date b)"
    and "now E \<le> a" "a < b"
    and "toLocalISO E (Some (Date a)) = Inr x" "toLocalISO E (Some (Date b)) = Inr y"
    and "POST_reply E = Inr res" "status res < 200 \<or> 299 < status res"
  shows "toasts (effects (book E s)) =
           [toast_error (case text' res of
                           Inr txt \<Rightarrow> if txt = '''' then ''Error booking appointment''
                                      else txt
                         | Inl e \<Rightarrow> ''Error booking appointment'')]
         \<and> (text' res = Inr ''Mechanic double-booked''
              \<longrightarrow> toasts (effects (book E s)) = [toast_error ''Mechanic double-booked''])
         \<and> after (book E s) = s
         \<and> requests (effects (book E s)) =
             [POST \<lparr>customerName = customer s, vehicleReg = vehicle s,
                     mechanicId = Number E (mechanic s), startTime = x, endTime = y\<rparr>]"
proof -
  let ?p = "\<lparr>customerName = customer s, vehicleReg = vehicle s,
             mechanicId = Number E (mechanic s), startTime = x, endTime = y\<rparr>"
  have b: "book E s = submit E s ?p"
    using assms(1-9) by (rule book_submits)
  have k: "\<not> ok res" using assms(11) by (auto simp: ok_def)
  have e: "effects (book E s) =
           (case text' res of
              Inl e \<Rightarrow> [fetch (POST ?p), console_error e,
                        toast_error ''Error booking appointment'']
            | Inr txt \<Rightarrow> [fetch (POST ?p),
                          toast_error (if txt = '''' then ''Error booking appointment''
                                       else txt)])"
    unfolding b using assms(10) k by (rule submit_not_ok)
  have t: "toasts (effects (book E s)) =
           [toast_error (case text' res of
                           Inr txt \<Rightarrow> if txt = '''' then ''Error booking appointment''
                                      else txt
                         | Inl e \<Rightarrow> ''Error booking appointment'')]"
    unfolding e by (simp split: sum.splits)
  have d: "text' res = Inr ''Mechanic double-booked''
              \<longrightarrow> toasts (effects (book E s)) = [toast_error ''Mechanic double-booked'']"
    unfolding t by simp
  have a: "after (book E s) = s"
    unfolding b using assms(10) k by (rule submit_not_ok)
  have r: "requests (effects (book E s)) = [POST ?p]"
    unfolding e by (simp split: sum.splits)
  show ?thesis using t d a r by (intro conjI)
qed

theorem book_rejected_by_server_witness:
  "effects (book (example_env double_booked offline) example_draft) =
     [fetch (POST \<lparr>customerName = ''Ann'', vehicleReg = ''KA01AB1234'',
                    mechanicId = Finite 7, startTime = ''2024-01-01T14:00:00'',
                    endTime = ''2024-01-01T15:00:00''\<rparr>),
      toast_error ''Mechanic double-booked'']
   \<and> toasts (effects (book (example_env double_booked offline) example_draft))
       = [toast_error ''Mechanic double-booked'']
   \<and> after (book (example_env double_booked offline) example_draft) = example_draft"
proof -
  let ?E = "example_env double_booked offline"
  let ?res = "\<lparr>status = 409, text' = Inr ''Mechanic double-booked'',
               json' = Inl SyntaxError\<rparr>"
  have s: "customer example_draft \<noteq> ''''" "vehicle example_draft \<noteq> ''''"
    "mechanic example_draft \<noteq> ''''"
    "start example_draft = Some (Date 1704097800000)"
    "end' example_draft = Some (Date 1704101400000)"
    by (simp_all add: example_draft_def)
  have t: "now ?E \<le> 1704097800000" "(1704097800000::int) < 1704101400000"
    by (simp_all add: example_env_def)
  have r: "POST_reply ?E = Inr ?res" "status ?res < 200 \<or> 299 < status ?res"
    by (simp_all add: example_env_def double_booked_def)
  have x: "text' ?res = Inr ''Mechanic double-booked''"
    by simp
  have c: "customer example_draft = ''Ann''" "vehicle example_draft = ''KA01AB1234''"
    "Number ?E (mechanic example_draft) = Finite 7"
    by (simp_all add: example_draft_def example_env_def)
  have e: "effects (book ?E example_draft) =
     [fetch (POST \<lparr>customerName = ''Ann'', vehicleReg = ''KA01AB1234'',
                    mechanicId = Finite 7, startTime = ''2024-01-01T14:00:00'',
                    endTime = ''2024-01-01T15:00:00''\<rparr>),
      toast_error ''Mechanic double-booked'']"
    unfolding book_submits [OF s t example_times] c
    by (simp add: submit_def r(1) ok_def)
  from book_rejected_by_server [OF s t example_times r] x e show ?thesis
    by simp
qed

section \<open>Loading the list\<close>

text \<open>
  C7. When the GET request of \<^verbatim>\<open>load\<close> throws, or the parsing of the response body
  throws, the state is unchanged, so the appointment list stays as it was; the error is
  logged to the console, no notification is shown, and no exception leaves the call.
\<close>

theorem load_failure:
  assumes "GET_reply E = Inl e \<or> (\<exists>res. GET_reply E = Inr res \<and> json' res = Inl e)"
  shows "load E s = \<lparr>after = s, effects = [fetch GET, console_error e], thrown = None\<rparr>
         \<and> appointments (after (load E s)) = appointments s
         \<and> toasts (effects (load E s)) = []"
  using assms by (auto simp: load_def)

theorem load_failure_witness:
  "load (example_env offline offline) example_draft =
     \<lparr>after = example_draft, effects = [fetch GET, console_error TypeError], thrown = None\<rparr>
   \<and> load (example_env offline created) example_draft =
     \<lparr>after = example_draft, effects = [fetch GET, console_error SyntaxError], thrown = None\<rparr>"
proof -
  have a: "GET_reply (example_env offline offline) = Inl TypeError \<or>
      (\<exists>res. GET_reply (example_env offline offline) = Inr res \<and> json' res = Inl TypeError)"
    by (simp add: example_env_def offline_def)
  have "GET_reply (example_env offline created) =
          Inr \<lparr>status = 201, text' = Inr ''Created'', json' = Inl SyntaxError\<rparr>"
    by (simp add: example_env_def created_def)
  then have b: "GET_reply (example_env offline created) = Inl SyntaxError \<or>
      (\<exists>res. GET_reply (example_env offline created) = Inr res \<and> json' res = Inl SyntaxError)"
    by simp
  from load_failure [OF a, of example_draft] load_failure [OF b, of example_draft]
  show ?thesis by simp
qed

text \<open>
  C8. \<^verbatim>\<open>load\<close> never looks at the status of the response: whenever the body parses as
  JSON, the appointment list becomes the parsed document, whatever document that is
  (an array or not), and the result is the same for every other status \<open>n\<close> in place
  of the one received, error statuses included.
\<close>

theorem load_ignores_status:
  assumes "GET_reply E = Inr res" "json' res = Inr data"
  shows "load E s = \<lparr>after = s\<lparr>appointments := data\<rparr>, effects = [fetch GET],
                      thrown = None\<rparr>
         \<and> load (E\<lparr>GET_reply := Inr (res\<lparr>status := n\<rparr>)\<rparr>) s = load E s"
  using assms by (simp add: load_def)

theorem load_ignores_status_witness:
  "load (example_env offline server_error) example_draft =
     \<lparr>after = example_draft\<lparr>appointments := JObject []\<rparr>, effects = [fetch GET],
      thrown = None\<rparr>"
proof -
  let ?res = "\<lparr>status = 500, text' = Inr ''{}'', json' = Inr (JObject [])\<rparr>"
  have "GET_reply (example_env offline server_error) = Inr ?res" "json' ?res = Inr (JObject [])"
    by (simp_all add: example_env_def server_error_def)
  from load_ignores_status [OF this, of example_draft 500] show ?thesis
    by simp
qed

section \<open>Displaying a timestamp\<close>

text \<open>
  C9. \<^verbatim>\<open>displayLocal\<close> maps a string that is not empty to the string with its first
  \<open>T\<close> replaced by a space, cut to 16 characters: a string without \<open>T\<close> is only cut,
  and in a string with a \<open>T\<close> the one after the longest prefix free of \<open>T\<close> is replaced.
  So \<^verbatim>\<open>2024-03-01T09:30:00\<close> is shown as \<^verbatim>\<open>2024-03-01 09:30\<close>. The function takes
  nothing but the string, so no time zone enters, and it checks nothing else about the
  string. A null, absent or empty input gives the literal "Invalid Date".
\<close>

theorem displayLocal_format:
  "(s \<noteq> '''' \<and> CHR ''T'' \<notin> set s \<longrightarrow> displayLocal (Some (JString s)) = Inr (take 16 s))
   \<and> (CHR ''T'' \<notin> set pre \<longrightarrow>
        displayLocal (Some (JString (pre @ CHR ''T'' # post)))
          = Inr (take 16 (pre @ CHR '' '' # post)))
   \<and> displayLocal (Some (JString ''2024-03-01T09:30:00'')) = Inr ''2024-03-01 09:30''
   \<and> displayLocal (Some JNull) = Inr ''Invalid Date''
   \<and> displayLocal None = Inr ''Invalid Date''
   \<and> displayLocal (Some (JString '''')) = Inr ''Invalid Date''"
  by (simp add: displayLocal_def falsy_def replace_absent replace_first)

theorem displayLocal_format_witness:
  "displayLocal (Some (JString ''not a date'')) = Inr ''not a date''
   \<and> displayLocal (Some (JString ''2024-13-45T99:99:99+05:30'')) = Inr ''2024-13-45 99:99''
   \<and> displayLocal (Some (JString ''TTT'')) = Inr '' TT''"
proof -
  have a: "''not a date'' \<noteq> '''' \<and> CHR ''T'' \<notin> set ''not a date''"
    by simp
  have b: "CHR ''T'' \<notin> set ''2024-13-45''" "CHR ''T'' \<notin> set ''''"
    by simp_all
  from displayLocal_format [of "''not a date''" "''2024-13-45''" "''99:99:99+05:30''"]
    displayLocal_format [of "''not a date''" "''''" "''TT''"] a b
  show ?thesis by simp
qed

section \<open>The mechanic field\<close>

text \<open>
  C10. \<^verbatim>\<open>book\<close> does not check that the mechanic field is numeric. If the field is a
  string that is not empty and that \<open>Number\<close> maps to \<^verbatim>\<open>NaN\<close>, and the other fields
  and the dates are valid, the three validations pass and the POST is sent; the
  \<open>mechanicId\<close> of its payload is \<^verbatim>\<open>NaN\<close>, written as \<^verbatim>\<open>null\<close> in the JSON body.
\<close>

theorem book_mechanic_not_a_number:
  assumes "customer s \<noteq> ''''" "vehicle s \<noteq> ''''"
    and "mechanic s \<noteq> ''''" "Number E (mechanic s) = NaN"
    and "start s = Some (Date a)" "end' s = Some (Date b)"
    and "now E \<le> a" "a < b"
    and "toLocalISO E (Some (Date a)) = Inr x" "toLocalISO E (Some (Date b)) = Inr y"
  shows "filter is_POST (requests (effects (book E s))) =
           [POST \<lparr>customerName = customer s, vehicleReg = vehicle s,
                   mechanicId = NaN, startTime = x, endTime = y\<rparr>]
         \<and> body (POST \<lparr>customerName = customer s, vehicleReg = vehicle s,
                         mechanicId = NaN, startTime = x, endTime = y\<rparr>) =
             Some (JObject [(''customerName'', JString (customer s)),
                            (''vehicleReg'', JString (vehicle s)),
                            (''mechanicId'', JNull),
                            (''startTime'', JString x),
                            (''endTime'', JString y)])"
proof -
  have "book E s =
          submit E s \<lparr>customerName = customer s, vehicleReg = vehicle s,
                       mechanicId = Number E (mechanic s), startTime = x, endTime = y\<rparr>"
    using assms(1,2,3,5-10) by (rule book_submits)
  then have "filter is_POST (requests (effects (book E s))) =
           [POST \<lparr>customerName = customer s, vehicleReg = vehicle s,
                   mechanicId = NaN, startTime = x, endTime = y\<rparr>]"
    unfolding assms(4) by (simp only: posts_submit)
  then show ?thesis
    by (simp add: POST_def JSON_stringify_def JSON_number_def)
qed

theorem book_mechanic_not_a_number_witness:
  "filter is_POST (requests (effects
       (book (example_env offline offline) (example_draft\<lparr>mechanic := ''abc''\<rparr>)))) =
     [\<lparr>url = ''http://localhost:8080/api/appointments'', http_method = ''POST'',
       headers = [(''Content-Type'', ''application/json'')],
       body = Some (JObject [(''customerName'', JString ''Ann''),
                             (''vehicleReg'', JString ''KA01AB1234''),
                             (''mechanicId'', JNull),
                             (''startTime'', JString ''2024-01-01T14:00:00''),
                             (''endTime'', JString ''2024-01-01T15:00:00'')])\<rparr>]"
proof -
  let ?E = "example_env offline offline"
  let ?s = "example_draft\<lparr>mechanic := ''abc''\<rparr>"
  have s: "customer ?s \<noteq> ''''" "vehicle ?s \<noteq> ''''" "mechanic ?s \<noteq> ''''"
    "Number ?E (mechanic ?s) = NaN"
    "start ?s = Some (Date 1704097800000)" "end' ?s = Some (Date 1704101400000)"
    by (simp_all add: example_draft_def example_env_def)
  have t: "now ?E \<le> 1704097800000" "(1704097800000::int) < 1704101400000"
    by (simp_all add: example_env_def)
  have c: "customer ?s = ''Ann''" "vehicle ?s = ''KA01AB1234''"
    by (simp_all add: example_draft_def)
  from book_mechanic_not_a_number [OF s t example_times] show ?thesis
    unfolding c by (simp add: POST_def JSON_stringify_def JSON_number_def API_def)
qed

end
